theory Spec2Isabelle
  imports Complex_Main
begin

section \<open>Python strings and paths\<close>

text \<open>
  The extractor (\<^verbatim>\<open>terra_hyperspectral.py\<close>) classifies files with \<^verbatim>\<open>str.endswith\<close> and
  takes paths apart with \<^verbatim>\<open>os.path.dirname\<close>, \<^verbatim>\<open>os.path.basename\<close> and
  \<^verbatim>\<open>os.path.join\<close> (the POSIX versions). Strings are character lists.
\<close>

definition endswith :: "string \<Rightarrow> string \<Rightarrow> bool" where
  "endswith s suf = (length suf \<le> length s \<and> drop (length s - length suf) s = suf)"

definition startswith :: "string \<Rightarrow> string \<Rightarrow> bool" where
  "startswith s pre = (take (length pre) s = pre)"

text \<open>\<^verbatim>\<open>p.rfind('/') + 1\<close>: the length of the part of \<open>p\<close> up to and including its last slash.\<close>

definition rfind_slash1 :: "string \<Rightarrow> nat" where
  "rfind_slash1 p = length (dropWhile (\<lambda>c. c \<noteq> CHR ''/'') (rev p))"

definition basename :: "string \<Rightarrow> string" where
  "basename p = drop (rfind_slash1 p) p"

definition rstrip_slash :: "string \<Rightarrow> string" where
  "rstrip_slash s = rev (dropWhile (\<lambda>c. c = CHR ''/'') (rev s))"

definition dirname :: "string \<Rightarrow> string" where
  "dirname p =
     (let head = take (rfind_slash1 p) p
      in if head \<noteq> [] \<and> head \<noteq> replicate (length head) (CHR ''/'')
         then rstrip_slash head else head)"

definition path_join :: "string \<Rightarrow> string \<Rightarrow> string" where
  "path_join a b =
     (if startswith b ''/'' then b
      else if a = [] \<or> endswith a ''/'' then a @ b
      else a @ ''/'' @ b)"

text \<open>\<^verbatim>\<open>s.find(sub) > -1\<close>: \<open>sub\<close> occurs somewhere in \<open>s\<close>.\<close>

fun contains :: "string \<Rightarrow> string \<Rightarrow> bool" where
  "contains [] sub = (sub = [])"
| "contains (c # cs) sub = (startswith (c # cs) sub \<or> contains cs sub)"

text \<open>
  \<^verbatim>\<open>s.split(sep)\<close> for a non-empty separator (Python raises \<^verbatim>\<open>ValueError\<close> on an empty one;
  the extractor only splits on \<^verbatim>\<open>" - "\<close>). \<open>acc\<close> holds the current piece, reversed.
\<close>

function split_acc :: "string \<Rightarrow> string \<Rightarrow> string \<Rightarrow> string list" where
  "split_acc sep acc [] = [rev acc]"
| "split_acc sep acc (c # cs) =
     (if sep \<noteq> [] \<and> startswith (c # cs) sep
      then rev acc # split_acc sep [] (drop (length sep) (c # cs))
      else split_acc sep (c # acc) cs)"
  by pat_completeness auto
termination
  by (relation "measure (\<lambda>(sep, acc, s). length s)") auto

definition split :: "string \<Rightarrow> string \<Rightarrow> string list" where
  "split s sep = split_acc sep [] s"

text \<open>\<^verbatim>\<open>s.replace(old, "")\<close> for a non-empty \<open>old\<close>: every occurrence, left to right, is dropped.\<close>

function remove_all :: "string \<Rightarrow> string \<Rightarrow> string" where
  "remove_all old [] = []"
| "remove_all old (c # cs) =
     (if old \<noteq> [] \<and> startswith (c # cs) old
      then remove_all old (drop (length old) (c # cs))
      else c # remove_all old cs)"
  by pat_completeness auto
termination
  by (relation "measure (\<lambda>(old, s). length s)") auto

section \<open>Errors\<close>

text \<open>
  The exceptions that the modelled code can raise. \<open>ValueError\<close> carries the message
  of the two explicit \<^verbatim>\<open>raise ValueError(...)\<close> statements of \<^verbatim>\<open>process_message\<close>.
\<close>

datatype error =
    ValueError string
  | TypeError
  | AttributeError
  | KeyError
  | IndexError
  | NameError
  | IOError
  | OSError
  | AssertionError

section \<open>The file roles\<close>

text \<open>
  \<^verbatim>\<open>target_files\<close> is a dictionary whose keys are file-name suffixes. The keys never
  change after the literal that creates the dictionary, so the dictionary is a total
  function from the role to \<^verbatim>\<open>None\<close> or a record. \<^verbatim>\<open>target_files.keys()\<close> has an order
  that depends on the interpreter (hash order in Python 2); every function that iterates
  over the keys takes that order as the parameter \<open>ks\<close>.
\<close>

datatype role = Raw | RawHdr | ImageJpg | FrameIndex | Settings | Metadata

fun ext :: "role \<Rightarrow> string" where
  "ext Raw = ''raw''"
| "ext RawHdr = ''raw.hdr''"
| "ext ImageJpg = ''image.jpg''"
| "ext FrameIndex = ''frameIndex.txt''"
| "ext Settings = ''settings.txt''"
| "ext Metadata = ''_metadata.json''"

text \<open>The order in which the source writes the keys.\<close>

definition source_keys :: "role list" where
  "source_keys = [Raw, RawHdr, ImageJpg, FrameIndex, Settings, Metadata]"

definition source_keys5 :: "role list" where
  "source_keys5 = [Raw, RawHdr, ImageJpg, FrameIndex, Settings]"

section \<open>\<^verbatim>\<open>get_all_files\<close> and \<^verbatim>\<open>has_all_files\<close>\<close>

text \<open>
  An item of \<^verbatim>\<open>resource['files']\<close> as the data-management service lists it: it has an
  \<^verbatim>\<open>id\<close> and a \<^verbatim>\<open>filename\<close>. The key \<^verbatim>\<open>'files'\<close> may be absent from the resource
  (\<open>None\<close>).
\<close>

record file_item =
  item_id :: string
  item_filename :: string

record remote_entry =
  re_id :: string
  re_filename :: string

text \<open>
  The inner loop of \<^verbatim>\<open>get_all_files\<close>: one file item against one key. There is no
  \<^verbatim>\<open>break\<close>: every key is tried for every item, and a later item overwrites an earlier one.
\<close>

definition gaf_ext :: "file_item \<Rightarrow> (role \<Rightarrow> remote_entry option) \<Rightarrow> role \<Rightarrow> (role \<Rightarrow> remote_entry option)" where
  "gaf_ext fileItem tf fileExt =
     (if endswith (item_filename fileItem) (ext fileExt)
      then tf(fileExt := Some \<lparr>re_id = item_id fileItem, re_filename = item_filename fileItem\<rparr>)
      else tf)"

definition gaf_item :: "role list \<Rightarrow> (role \<Rightarrow> remote_entry option) \<Rightarrow> file_item \<Rightarrow> (role \<Rightarrow> remote_entry option)" where
  "gaf_item ks tf fileItem = foldl (gaf_ext fileItem) tf ks"

definition get_all_files :: "role list \<Rightarrow> file_item list option \<Rightarrow> (role \<Rightarrow> remote_entry option)" where
  "get_all_files ks files =
     (case files of
        None \<Rightarrow> (\<lambda>_. None)
      | Some fl \<Rightarrow> foldl (gaf_item ks) (\<lambda>_. None) fl)"

text \<open>
  \<^verbatim>\<open>has_all_files\<close> starts from \<^verbatim>\<open>allFilesFound = True\<close> and sets it to \<^verbatim>\<open>False\<close> at every
  key whose value is \<^verbatim>\<open>None\<close>.
\<close>

definition has_all_files :: "role list \<Rightarrow> file_item list option \<Rightarrow> bool" where
  "has_all_files ks files =
     (let target_files = get_all_files ks files
      in foldl (\<lambda>allFilesFound fileExt.
                  if target_files fileExt = None then False else allFilesFound) True ks)"

section \<open>The structural validator (\<^verbatim>\<open>hyperspectral_test.py\<close>)\<close>

subsection \<open>Containers\<close>

text \<open>
  What the checks read of a netCDF container: the root dimensions with their sizes, the
  root variables with their attributes and their values, and the root attributes. The
  dictionaries are association lists, one pair per name. The values of a variable are its
  numbers in storage order; for the one-dimensional variables that the checks index or
  measure (\<^verbatim>\<open>wavelength\<close>, \<^verbatim>\<open>frametime\<close>), \<^verbatim>\<open>len(v)\<close> is the length of that list and
  \<^verbatim>\<open>v[0]\<close> is its head. The stored numbers are taken as real numbers: the comparisons of the
  checks are comparisons of the values (a NaN, which compares false, is not modelled).
\<close>

datatype attr_value = AStr string | ANum real

record variable =
  vdata :: "real list"
  vattrs :: "(string \<times> attr_value) list"

record container =
  dimensions :: "(string \<times> nat) list"
  variables :: "(string \<times> variable) list"
  root_attrs :: "(string \<times> attr_value) list"

text \<open>\<^verbatim>\<open>d[k]\<close> on a dictionary, \<^verbatim>\<open>getattr(obj, name)\<close>, \<^verbatim>\<open>v[0]\<close>, and the truth value of an attribute.\<close>

definition getitem :: "(string \<times> 'v) list \<Rightarrow> string \<Rightarrow> error + 'v" where
  "getitem d k = (case map_of d k of None \<Rightarrow> Inl KeyError | Some v \<Rightarrow> Inr v)"

definition getattr :: "(string \<times> attr_value) list \<Rightarrow> string \<Rightarrow> error + attr_value" where
  "getattr attrs name = (case map_of attrs name of None \<Rightarrow> Inl AttributeError | Some v \<Rightarrow> Inr v)"

definition hasattr :: "(string \<times> attr_value) list \<Rightarrow> string \<Rightarrow> bool" where
  "hasattr attrs name = (map_of attrs name \<noteq> None)"

definition first_sample :: "variable \<Rightarrow> error + real" where
  "first_sample v = (case vdata v of [] \<Rightarrow> Inl IndexError | x # _ \<Rightarrow> Inr x)"

fun truthy :: "attr_value \<Rightarrow> bool" where
  "truthy (AStr s) = (s \<noteq> [])"
| "truthy (ANum x) = (x \<noteq> 0)"

subsection \<open>Module globals\<close>

text \<open>
  The checks read their thresholds from module-level names. A name that is not bound at
  module level (and is no builtin) raises \<^verbatim>\<open>NameError\<close> when it is read, so the globals are
  a map from names to values. These are the bindings of lines 50 to 54.
\<close>

datatype pyval = PNone | PNum real | PStr string

definition module_globals :: "string \<rightharpoonup> pyval" where
  "module_globals =
     [''EXPECTED_NUMBER_OF_GROUPS'' \<mapsto> PNum 6,
      ''EXPECTED_NUMBER_OF_DIMENSIONS'' \<mapsto> PNum 4,
      ''TEST_FILE_DIRECTORY'' \<mapsto> PNone,
      ''MAXIMUM_PLANT_REFLECTANCE'' \<mapsto> PNum 0.6,
      ''DEFAULT_SATURATED_EXPOSURE'' \<mapsto> PNum (2 ^ 16 - 1)]"

definition global_num :: "(string \<rightharpoonup> pyval) \<Rightarrow> string \<Rightarrow> error + real" where
  "global_num g name =
     (case g name of
        None \<Rightarrow> Inl NameError
      | Some (PNum x) \<Rightarrow> Inr x
      | Some _ \<Rightarrow> Inl TypeError)"

subsection \<open>Assertions\<close>

definition assertTrue :: "bool \<Rightarrow> error + unit" where
  "assertTrue b = (if b then Inr () else Inl AssertionError)"

definition assertFalse :: "bool \<Rightarrow> error + unit" where
  "assertFalse b = (if b then Inl AssertionError else Inr ())"

text \<open>\<^verbatim>\<open>assertHasAttribute\<close> (lines 75 to 80) raises the failure exception when the attribute is missing.\<close>

definition assertHasAttribute :: "(string \<times> attr_value) list \<Rightarrow> string \<Rightarrow> error + unit" where
  "assertHasAttribute attrs attr = (if \<not> hasattr attrs attr then Inl AssertionError else Inr ())"

fun assertHasAttributes :: "(string \<times> attr_value) list \<Rightarrow> string list \<Rightarrow> error + unit" where
  "assertHasAttributes attrs [] = Inr ()"
| "assertHasAttributes attrs (a # as) =
     (case assertHasAttribute attrs a of Inl e \<Rightarrow> Inl e | Inr _ \<Rightarrow> assertHasAttributes attrs as)"

subsection \<open>The checks\<close>

definition testTheNumberOfDimensionsInRootLevelIsCorrect :: "(string \<rightharpoonup> pyval) \<Rightarrow> container \<Rightarrow> error + unit" where
  "testTheNumberOfDimensionsInRootLevelIsCorrect g c =
     (case global_num g ''EXPECTED_NUMBER_OF_DIMENSIONS'' of
        Inl e \<Rightarrow> Inl e
      | Inr n \<Rightarrow> assertTrue (real (length (dimensions c)) = n))"

definition testTheYDimensionsMatchesTimeDimension :: "(string \<rightharpoonup> pyval) \<Rightarrow> container \<Rightarrow> error + unit" where
  "testTheYDimensionsMatchesTimeDimension g c =
     (case getitem (dimensions c) ''y'' of
        Inl e \<Rightarrow> Inl e
      | Inr y \<Rightarrow>
          (case getitem (dimensions c) ''time'' of
             Inl e \<Rightarrow> Inl e
           | Inr t \<Rightarrow> assertTrue (y = t)))"

definition band_counts :: "nat list" where
  "band_counts = [272, 273, 275, 939, 955]"

definition testTheWavelengthDimensionsHaveCorrectValues :: "(string \<rightharpoonup> pyval) \<Rightarrow> container \<Rightarrow> error + unit" where
  "testTheWavelengthDimensionsHaveCorrectValues g c =
     (case getitem (dimensions c) ''wavelength'' of
        Inl e \<Rightarrow> Inl e
      | Inr n \<Rightarrow> assertTrue (n \<in> set band_counts))"

definition testWavelengthArrayHasEnoughData :: "(string \<rightharpoonup> pyval) \<Rightarrow> container \<Rightarrow> error + unit" where
  "testWavelengthArrayHasEnoughData g c =
     (case getitem (variables c) ''wavelength'' of
        Inl e \<Rightarrow> Inl e
      | Inr wavelengthArray \<Rightarrow> assertTrue (length (vdata wavelengthArray) \<in> set band_counts))"

text \<open>
  \<^verbatim>\<open>assertGreater(w[0], 3e-7)\<close>, then \<^verbatim>\<open>assertLess(w[0], 1e-6)\<close>. The two literals are taken
  as the decimal numbers they denote.
\<close>

definition testWavelengthArrayHasCorrectData :: "(string \<rightharpoonup> pyval) \<Rightarrow> container \<Rightarrow> error + unit" where
  "testWavelengthArrayHasCorrectData g c =
     (case getitem (variables c) ''wavelength'' of
        Inl e \<Rightarrow> Inl e
      | Inr wavelengthArray \<Rightarrow>
          (case first_sample wavelengthArray of
             Inl e \<Rightarrow> Inl e
           | Inr w0 \<Rightarrow>
               (case assertTrue (w0 > 3 / 10 ^ 7) of
                  Inl e \<Rightarrow> Inl e
                | Inr _ \<Rightarrow> assertTrue (w0 < 1 / 10 ^ 6))))"

definition testHistoryIsCorrectlyRecorded :: "(string \<rightharpoonup> pyval) \<Rightarrow> container \<Rightarrow> error + unit" where
  "testHistoryIsCorrectlyRecorded g c =
     (case getattr (root_attrs c) ''history'' of
        Inl e \<Rightarrow> Inl e
      | Inr h \<Rightarrow> assertTrue (truthy h))"

definition testFrameTimeHasCorrectCalendarAttr :: "(string \<rightharpoonup> pyval) \<Rightarrow> container \<Rightarrow> error + unit" where
  "testFrameTimeHasCorrectCalendarAttr g c =
     (case assertTrue (map_of (variables c) ''frametime'' \<noteq> None) of
        Inl e \<Rightarrow> Inl e
      | Inr _ \<Rightarrow>
          (case getitem (variables c) ''frametime'' of
             Inl e \<Rightarrow> Inl e
           | Inr frameTime \<Rightarrow>
               (case getattr (vattrs frameTime) ''calender'' of
                  Inl e \<Rightarrow> Inl e
                | Inr cal \<Rightarrow> assertTrue (cal = AStr ''gregorian''))))"

definition testFrameTimeHasCorrectUnitsAttr :: "(string \<rightharpoonup> pyval) \<Rightarrow> container \<Rightarrow> error + unit" where
  "testFrameTimeHasCorrectUnitsAttr g c =
     (case getitem (variables c) ''frametime'' of
        Inl e \<Rightarrow> Inl e
      | Inr frameTime \<Rightarrow>
          (case getattr (vattrs frameTime) ''units'' of
             Inl e \<Rightarrow> Inl e
           | Inr u \<Rightarrow> assertTrue (u = AStr ''days since 1970-01-01 00:00:00'')))"

definition testFrameTimeHasCorrectValue :: "(string \<rightharpoonup> pyval) \<Rightarrow> container \<Rightarrow> error + unit" where
  "testFrameTimeHasCorrectValue g c =
     (case getitem (variables c) ''frametime'' of
        Inl e \<Rightarrow> Inl e
      | Inr frameTime \<Rightarrow>
          (case first_sample frameTime of
             Inl e \<Rightarrow> Inl e
           | Inr t0 \<Rightarrow> assertTrue (t0 > 16000)))"

definition potentialAttributes :: "string list" where
  "potentialAttributes = [''units'', ''reference_point'', ''long_name'', ''algorithm'']"

definition testXHasEnoughAttributes :: "(string \<rightharpoonup> pyval) \<Rightarrow> container \<Rightarrow> error + unit" where
  "testXHasEnoughAttributes g c =
     (case getitem (variables c) ''x'' of
        Inl e \<Rightarrow> Inl e
      | Inr x \<Rightarrow> assertHasAttributes (vattrs x) potentialAttributes)"

definition testYHasEnoughAttributes :: "(string \<rightharpoonup> pyval) \<Rightarrow> container \<Rightarrow> error + unit" where
  "testYHasEnoughAttributes g c =
     (case getitem (variables c) ''y'' of
        Inl e \<Rightarrow> Inl e
      | Inr y \<Rightarrow> assertHasAttributes (vattrs y) potentialAttributes)"

text \<open>\<^verbatim>\<open>(graph > bound).any()\<close> and \<^verbatim>\<open>(graph < bound).any()\<close> over all the values of the array.\<close>

definition any_gt :: "real list \<Rightarrow> real \<Rightarrow> bool" where
  "any_gt graph bound = list_ex (\<lambda>x. x > bound) graph"

definition any_lt :: "real list \<Rightarrow> real \<Rightarrow> bool" where
  "any_lt graph bound = list_ex (\<lambda>x. x < bound) graph"

definition testCalibrationGraphIsOverReflected :: "(string \<rightharpoonup> pyval) \<Rightarrow> container \<Rightarrow> error + unit" where
  "testCalibrationGraphIsOverReflected g c =
     (case getitem (variables c) ''rfl_img'' of
        Inl e \<Rightarrow> Inl e
      | Inr graph \<Rightarrow>
          (case global_num g ''MAXIMUM_PLANT_REFLECTANCE'' of
             Inl e \<Rightarrow> Inl e
           | Inr m \<Rightarrow> assertFalse (any_gt (vdata graph) m)))"

text \<open>
  Lines 257 to 262. The two flags are joined by \<^verbatim>\<open>and\<close>. The message argument reads
  \<^verbatim>\<open>MAXIMUM_PLANT_REFLECTANCE\<close> before \<^verbatim>\<open>assertFalse\<close> is called.
\<close>

definition testSolarZenithAngleInReseaonableRange :: "(string \<rightharpoonup> pyval) \<Rightarrow> container \<Rightarrow> error + unit" where
  "testSolarZenithAngleInReseaonableRange g c =
     (case getitem (variables c) ''solar_zenith_angle'' of
        Inl e \<Rightarrow> Inl e
      | Inr graph \<Rightarrow>
          (let result_over = any_gt (vdata graph) 90;
               result_lower = any_lt (vdata graph) 0
           in case global_num g ''MAXIMUM_PLANT_REFLECTANCE'' of
                Inl e \<Rightarrow> Inl e
              | Inr _ \<Rightarrow> assertFalse (result_over \<and> result_lower)))"

text \<open>
  Lines 264 to 269. The comparison reads the name \<^verbatim>\<open>SATURATED_EXPOSURE\<close>; the module binds
  \<^verbatim>\<open>DEFAULT_SATURATED_EXPOSURE\<close>.
\<close>

definition testCalibrationGraphIsOverExposured :: "(string \<rightharpoonup> pyval) \<Rightarrow> container \<Rightarrow> error + unit" where
  "testCalibrationGraphIsOverExposured g c =
     (case getitem (variables c) ''xps_img'' of
        Inl e \<Rightarrow> Inl e
      | Inr graph \<Rightarrow>
          (case global_num g ''SATURATED_EXPOSURE'' of
             Inl e \<Rightarrow> Inl e
           | Inr m \<Rightarrow> assertFalse (any_gt (vdata graph) m)))"

subsection \<open>Running the suite\<close>

text \<open>
  The test methods of \<^verbatim>\<open>HyperspectralWorkflowTest\<close>, each with the flag that says whether it
  carries \<^verbatim>\<open>@unittest.expectedFailure\<close>.
\<close>

definition test_cases :: "(bool \<times> ((string \<rightharpoonup> pyval) \<Rightarrow> container \<Rightarrow> error + unit)) list" where
  "test_cases =
     [(True, testTheNumberOfDimensionsInRootLevelIsCorrect),
      (False, testTheYDimensionsMatchesTimeDimension),
      (False, testTheWavelengthDimensionsHaveCorrectValues),
      (False, testWavelengthArrayHasEnoughData),
      (False, testWavelengthArrayHasCorrectData),
      (False, testHistoryIsCorrectlyRecorded),
      (False, testFrameTimeHasCorrectCalendarAttr),
      (False, testFrameTimeHasCorrectUnitsAttr),
      (False, testFrameTimeHasCorrectValue),
      (False, testXHasEnoughAttributes),
      (False, testYHasEnoughAttributes),
      (True, testCalibrationGraphIsOverReflected),
      (False, testSolarZenithAngleInReseaonableRange),
      (True, testCalibrationGraphIsOverExposured)]"

text \<open>
  How \<^verbatim>\<open>unittest\<close> records one test, in Python 2.7 and in Python 3 alike. A test without
  the decorator is a success when it returns, a failure on the failure exception and an
  error on any other exception. The decorator turns every exception into an expected
  failure and a normal return into an unexpected success.
\<close>

datatype outcome = Success | Failure | Error | ExpectedFailure | UnexpectedSuccess

definition run_test :: "bool \<Rightarrow> error + unit \<Rightarrow> outcome" where
  "run_test expected_failure r =
     (if expected_failure
      then (case r of Inl _ \<Rightarrow> ExpectedFailure | Inr _ \<Rightarrow> UnexpectedSuccess)
      else (case r of
              Inr _ \<Rightarrow> Success
            | Inl e \<Rightarrow> if e = AssertionError then Failure else Error))"

text \<open>
  \<^verbatim>\<open>setUpClass\<close> opens the file named by \<^verbatim>\<open>TEST_FILE_DIRECTORY\<close>; \<open>fs\<close> gives the container
  stored at a path, if the path can be opened as one. When the class set-up raises, one
  error is recorded and no test of the class runs.
\<close>

definition setUpClass :: "(string \<rightharpoonup> pyval) \<Rightarrow> (string \<rightharpoonup> container) \<Rightarrow> error + container" where
  "setUpClass g fs =
     (case g ''TEST_FILE_DIRECTORY'' of
        Some (PStr p) \<Rightarrow> (case fs p of None \<Rightarrow> Inl IOError | Some c \<Rightarrow> Inr c)
      | Some _ \<Rightarrow> Inl TypeError
      | None \<Rightarrow> Inl NameError)"

definition run_suite :: "(string \<rightharpoonup> pyval) \<Rightarrow> (string \<rightharpoonup> container) \<Rightarrow> outcome list" where
  "run_suite g fs =
     (case setUpClass g fs of
        Inl _ \<Rightarrow> [Error]
      | Inr c \<Rightarrow> map (\<lambda>(xf, body). run_test xf (body g c)) test_cases)"

text \<open>
  The script is written for Python 2.7, the interpreter of this repository, and runs
  unchanged on Python 3. The library differs between the two in
  \<^verbatim>\<open>TestResult.wasSuccessful\<close>: in \<^verbatim>\<open>unittest\<close> of Python 2.7 (and up to 3.3) it is
  \<^verbatim>\<open>len(self.failures) == len(self.errors) == 0\<close>; since Python 3.4 it also requires
  \<^verbatim>\<open>len(self.unexpectedSuccesses) == 0\<close>. The version of the library is a parameter of the
  run.
\<close>

datatype unittest_version = Unittest27 | Unittest34

definition wasSuccessful :: "unittest_version \<Rightarrow> outcome list \<Rightarrow> bool" where
  "wasSuccessful u outs =
     (length (filter (\<lambda>out. out = Failure) outs) = 0
      \<and> length (filter (\<lambda>out. out = Error) outs) = 0
      \<and> (case u of
            Unittest27 \<Rightarrow> True
          | Unittest34 \<Rightarrow> length (filter (\<lambda>out. out = UnexpectedSuccess) outs) = 0))"

text \<open>
  The main block (lines 272 to 291), after \<^verbatim>\<open>argparse\<close> has read the command line: the
  path, the verbosity, and the two optional thresholds with their defaults.
\<close>

record args =
  input_file_path :: string
  verbosity :: int
  maximum_plant_reflectance :: real
  saturated_exposure :: int

definition default_args :: "string \<Rightarrow> args" where
  "default_args p =
     \<lparr>input_file_path = p, verbosity = 3, maximum_plant_reflectance = 0.6,
      saturated_exposure = 2 ^ 16 - 1\<rparr>"

definition main_globals :: "args \<Rightarrow> (string \<rightharpoonup> pyval)" where
  "main_globals a =
     module_globals
       (''TEST_FILE_DIRECTORY'' \<mapsto> PStr (input_file_path a),
        ''MAXIMUM_PLANT_REFLECTANCE'' \<mapsto> PNum (maximum_plant_reflectance a),
        ''DEFAULT_SATURATED_EXPOSURE'' \<mapsto> PNum (of_int (saturated_exposure a)))"

text \<open>\<^verbatim>\<open>sys.exit(not returnValue)\<close>: \<^verbatim>\<open>False\<close> is exit status 0 and \<^verbatim>\<open>True\<close> is exit status 1.\<close>

definition main :: "unittest_version \<Rightarrow> args \<Rightarrow> (string \<rightharpoonup> container) \<Rightarrow> nat" where
  "main u a fs =
     (let returnValue = wasSuccessful u (run_suite (main_globals a) fs)
      in if \<not> returnValue then 1 else 0)"

text \<open>
  Two conditions on a container, in the words of the verdict: every check without the
  expected-failure mark passes, and every check with the mark raises (none of them returns
  normally, which would be an unexpected success).
\<close>

definition unmarked_checks_pass :: "(string \<rightharpoonup> pyval) \<Rightarrow> container \<Rightarrow> bool" where
  "unmarked_checks_pass g c =
     list_all (\<lambda>(xf, body). body g c = Inr ()) (filter (\<lambda>(xf, body). \<not> xf) test_cases)"

definition marked_checks_raise :: "(string \<rightharpoonup> pyval) \<Rightarrow> container \<Rightarrow> bool" where
  "marked_checks_raise g c =
     list_all (\<lambda>(xf, body). body g c \<noteq> Inr ()) (filter (\<lambda>(xf, body). xf) test_cases)"

subsection \<open>Sample containers\<close>

text \<open>
  Containers on which the checks are evaluated below: one with a \<^verbatim>\<open>wavelength\<close> dimension
  and variable only, one with a single variable, and two that meet every check that is
  not marked as an expected failure. \<open>good_container\<close> has four root dimensions and a
  reflectance below 0.6, so two marked checks succeed on it; \<open>evolved_container\<close> has a
  fifth dimension and a reflectance above 0.6, so every marked check raises on it.
\<close>

definition wl_container :: "nat \<Rightarrow> real \<Rightarrow> container" where
  "wl_container n w0 =
     \<lparr>dimensions = [(''wavelength'', n)],
      variables = [(''wavelength'', \<lparr>vdata = replicate n w0, vattrs = []\<rparr>)],
      root_attrs = []\<rparr>"

definition var_container :: "string \<Rightarrow> real list \<Rightarrow> container" where
  "var_container name xs =
     \<lparr>dimensions = [], variables = [(name, \<lparr>vdata = xs, vattrs = []\<rparr>)], root_attrs = []\<rparr>"

definition axis_attrs :: "(string \<times> attr_value) list" where
  "axis_attrs =
     [(''units'', AStr ''meter''), (''reference_point'', AStr ''gantry origin''),
      (''long_name'', AStr ''position''), (''algorithm'', AStr ''linear'')]"

definition full_container :: "(string \<times> nat) list \<Rightarrow> real list \<Rightarrow> container" where
  "full_container more_dimensions rfl =
     \<lparr>dimensions =
        [(''x'', 1600), (''y'', 169), (''time'', 169), (''wavelength'', 273)] @ more_dimensions,
      variables =
        [(''wavelength'', \<lparr>vdata = replicate 273 (4 / 10 ^ 7), vattrs = []\<rparr>),
         (''frametime'',
            \<lparr>vdata = [20000],
             vattrs = [(''calender'', AStr ''gregorian''),
                       (''units'', AStr ''days since 1970-01-01 00:00:00'')]\<rparr>),
         (''x'', \<lparr>vdata = [0], vattrs = axis_attrs\<rparr>),
         (''y'', \<lparr>vdata = [0], vattrs = axis_attrs\<rparr>),
         (''rfl_img'', \<lparr>vdata = rfl, vattrs = []\<rparr>),
         (''solar_zenith_angle'', \<lparr>vdata = [45], vattrs = []\<rparr>),
         (''xps_img'', \<lparr>vdata = [1000], vattrs = []\<rparr>)],
      root_attrs = [(''history'', AStr ''converted'')]\<rparr>"

definition good_container :: container where
  "good_container = full_container [] [0.3]"

definition evolved_container :: container where
  "evolved_container = full_container [(''band'', 3)] [0.9]"

section \<open>The extractor: \<^verbatim>\<open>process_message\<close>\<close>

subsection \<open>Scanning the local paths (lines 80 to 113)\<close>

record local_entry =
  filename :: string
  path :: string

text \<open>
  The local variables that the scan sets. \<^verbatim>\<open>path_match\<close> holds \<^verbatim>\<open>None\<close> or a Boolean and
  \<^verbatim>\<open>last_path\<close> holds \<^verbatim>\<open>None\<close> or a string.
\<close>

record scan_state =
  target_files :: "role \<Rightarrow> local_entry option"
  metafile :: "string option"
  ds_metafile :: "string option"
  last_path :: "string option"
  path_match :: "bool option"

definition init_scan :: scan_state where
  "init_scan =
     \<lparr>target_files = (\<lambda>_. None), metafile = None, ds_metafile = None,
      last_path = None, path_match = None\<rparr>"

text \<open>\<^verbatim>\<open>not v\<close> for a value that is \<^verbatim>\<open>None\<close> or a string, and for one that is \<^verbatim>\<open>None\<close> or a Boolean.\<close>

definition not_str :: "string option \<Rightarrow> bool" where
  "not_str v = (case v of None \<Rightarrow> True | Some s \<Rightarrow> s = [])"

definition not_bool :: "bool option \<Rightarrow> bool" where
  "not_bool v = (case v of None \<Rightarrow> True | Some b \<Rightarrow> \<not> b)"

text \<open>The body of the inner loop: one path \<open>f\<close> against one key \<open>fileExt\<close>.\<close>

definition scan_ext :: "string \<Rightarrow> scan_state \<Rightarrow> role \<Rightarrow> scan_state" where
  "scan_ext f s fileExt =
     (if endswith f (ext fileExt) then
        (if ext fileExt \<noteq> ''_metadata.json'' then
           (let filedir = dirname f;
                s1 = (if not_str (last_path s) then s\<lparr>last_path := Some filedir\<rparr>
                      else (let s2 = (if Some filedir \<noteq> last_path s
                                      then s\<lparr>path_match := Some False\<rparr> else s)
                            in s2\<lparr>last_path := Some filedir\<rparr>))
            in s1\<lparr>target_files := (target_files s1)
                    (fileExt := Some \<lparr>filename = basename f, path = f\<rparr>)\<rparr>)
         else if endswith f ''/_dataset_metadata.json'' then s\<lparr>ds_metafile := Some f\<rparr>
         else if \<not> endswith f ''/_metadata.json'' then
           s\<lparr>metafile := Some f,
             target_files := (target_files s)
               (Metadata := Some \<lparr>filename = basename f, path = f\<rparr>)\<rparr>
         else s)
      else s)"

definition scan_file :: "role list \<Rightarrow> scan_state \<Rightarrow> string \<Rightarrow> scan_state" where
  "scan_file ks s f = foldl (scan_ext f) s ks"

definition scan_local_paths :: "role list \<Rightarrow> string list \<Rightarrow> scan_state" where
  "scan_local_paths ks paths = foldl (scan_file ks) init_scan paths"

subsection \<open>The world of the extractor\<close>

text \<open>
  What a run can change and what can be seen of it afterwards: the regular files with
  their contents, the symbolic links, the directories that \<^verbatim>\<open>tempfile.mkdtemp\<close> made, the
  calls to the logger and to the external services in their order, and the two counters
  \<^verbatim>\<open>self.created\<close> and \<^verbatim>\<open>self.bytes\<close>. Log messages are recorded without their formatted
  arguments.
\<close>

datatype event =
    StartMessage
  | LogInfo string
  | LogError string
  | Workflow "string list"
  | Upload string string
  | SubmitTraits string
  | EndMessage

record world =
  fs_files :: "string \<rightharpoonup> string"
  fs_links :: "(string \<times> string) list"
  fs_dirs :: "string list"
  events :: "event list"
  created :: nat
  bytes :: nat

definition emit :: "event \<Rightarrow> world \<Rightarrow> world" where
  "emit e w = w\<lparr>events := events w @ [e]\<rparr>"

definition path_exists :: "world \<Rightarrow> string \<Rightarrow> bool" where
  "path_exists w p = (fs_files w p \<noteq> None)"

definition getsize :: "world \<Rightarrow> string \<Rightarrow> nat" where
  "getsize w p = (case fs_files w p of None \<Rightarrow> 0 | Some content \<Rightarrow> length content)"

definition read_file :: "world \<Rightarrow> string \<Rightarrow> error + string" where
  "read_file w p = (case fs_files w p of None \<Rightarrow> Inl IOError | Some content \<Rightarrow> Inr content)"

definition write_file :: "string \<Rightarrow> string \<Rightarrow> world \<Rightarrow> world" where
  "write_file p content w = w\<lparr>fs_files := (fs_files w)(p \<mapsto> content)\<rparr>"

text \<open>\<^verbatim>\<open>os.symlink(src, dst)\<close> fails when \<open>dst\<close> is taken.\<close>

definition os_symlink :: "string \<Rightarrow> string \<Rightarrow> world \<Rightarrow> error + world" where
  "os_symlink src dst w =
     (if map_of (fs_links w) dst \<noteq> None \<or> fs_files w dst \<noteq> None \<or> dst \<in> set (fs_dirs w)
      then Inl OSError
      else Inr (w\<lparr>fs_links := fs_links w @ [(dst, src)]\<rparr>))"

text \<open>\<^verbatim>\<open>os.remove(p)\<close> removes a link or a file and fails when there is neither.\<close>

definition os_remove :: "string \<Rightarrow> world \<Rightarrow> error + world" where
  "os_remove p w =
     (if map_of (fs_links w) p \<noteq> None
      then Inr (w\<lparr>fs_links := filter (\<lambda>(l, t). l \<noteq> p) (fs_links w)\<rparr>)
      else if fs_files w p \<noteq> None then Inr (w\<lparr>fs_files := (fs_files w)(p := None)\<rparr>)
      else Inl OSError)"

text \<open>\<^verbatim>\<open>os.rmdir(d)\<close> fails when the directory is missing or still holds a link.\<close>

definition os_rmdir :: "string \<Rightarrow> world \<Rightarrow> error + world" where
  "os_rmdir d w =
     (if d \<in> set (fs_dirs w) \<and> \<not> list_ex (\<lambda>(l, t). dirname l = d) (fs_links w)
      then Inr (w\<lparr>fs_dirs := filter (\<lambda>x. x \<noteq> d) (fs_dirs w)\<rparr>)
      else Inl OSError)"

subsection \<open>The collaborators\<close>

text \<open>
  The libraries and services outside the repository, and the two facts that depend on the
  interpreter and the machine: the order of the keys of \<^verbatim>\<open>target_files\<close> and the name that
  \<^verbatim>\<open>tempfile.mkdtemp\<close> returns. \<open>'j\<close> is the type of parsed JSON documents;
  \<open>json_load\<close> gives \<open>None\<close> on a text that is not JSON. \<open>workflow\<close> is the conversion
  script: from its arguments and the files it gives the exit status and the files
  afterwards. \<open>read_ndvi\<close> stands for lines 189 to 192, which open the index file and
  read the value of the variable with the NDVI705 standard name.
\<close>

record 'j env =
  key_order :: "role list"
  mkdtemp :: string
  json_load :: "string \<Rightarrow> 'j option"
  json_dump :: "'j \<Rightarrow> string"
  get_terraref_metadata :: "'j \<Rightarrow> 'j"
  get_sensor_path :: "string \<Rightarrow> string \<Rightarrow> string list \<Rightarrow> string"
  create_sensor_path :: "string \<Rightarrow> string \<Rightarrow> string"
  get_display_name :: "string \<Rightarrow> string"
  build_dataset_hierarchy :: "string \<Rightarrow> string \<Rightarrow> string \<Rightarrow> string \<Rightarrow> string \<Rightarrow> string"
  workflow :: "string list \<Rightarrow> (string \<rightharpoonup> string) \<Rightarrow> int \<times> (string \<rightharpoonup> string)"
  read_ndvi :: "(string \<rightharpoonup> string) \<Rightarrow> string \<Rightarrow> error + string"

record resource =
  res_id :: string
  dataset_name :: string
  local_paths :: "string list"

subsection \<open>Locating the metadata (lines 115 to 125)\<close>

text \<open>
  Line 121 calls \<^verbatim>\<open>os.path.listdir\<close>. The module \<^verbatim>\<open>os.path\<close> has no such attribute (the
  directory listing is \<^verbatim>\<open>os.listdir\<close>), so evaluating it raises \<^verbatim>\<open>AttributeError\<close>.
\<close>

definition os_path_listdir :: "string \<Rightarrow> error + string list" where
  "os_path_listdir d = Inl AttributeError"

text \<open>The loop of lines 121 to 123 over a listing.\<close>

fun attach_siblings :: "string \<Rightarrow> string list \<Rightarrow> scan_state \<Rightarrow> error + scan_state" where
  "attach_siblings ds_dir [] s = Inr s"
| "attach_siblings ds_dir (ds_f # rest) s =
     (if endswith ds_f ''_metadata.json'' then
        (case target_files s Metadata of
           None \<Rightarrow> Inl TypeError
         | Some m \<Rightarrow>
             attach_siblings ds_dir rest
               (s\<lparr>target_files := (target_files s)
                    (Metadata := Some (m\<lparr>path := path_join ds_dir ds_f\<rparr>))\<rparr>))
      else attach_siblings ds_dir rest s)"

definition identify_metadata :: "resource \<Rightarrow> scan_state \<Rightarrow> world \<Rightarrow> (error + scan_state) \<times> world" where
  "identify_metadata resource s w =
     (if metafile s = None then
        (if ds_metafile s \<noteq> None then
           (let w1 = emit (LogInfo ''checking for local metadata file alongside other files'') w
            in case target_files s Raw of
                 None \<Rightarrow> (Inl TypeError, w1)
               | Some raw \<Rightarrow>
                   (let ds_dir = dirname (path raw)
                    in case os_path_listdir ds_dir of
                         Inl e \<Rightarrow> (Inl e, w1)
                       | Inr listing \<Rightarrow> (attach_siblings ds_dir listing s, w1)))
         else (Inl (ValueError (''could not locate metadata for '' @ res_id resource)), w))
      else (Inr s, w))"

subsection \<open>Creating the links (lines 127 to 143)\<close>

definition symlink_and_record :: "string \<Rightarrow> string \<Rightarrow> string list \<Rightarrow> world \<Rightarrow> (error + string list) \<times> world" where
  "symlink_and_record src newf symlinks w =
     (case os_symlink src newf w of
        Inl e \<Rightarrow> (Inl e, w)
      | Inr w' \<Rightarrow> (Inr (symlinks @ [newf]), w'))"

text \<open>
  The body of the loop for the key \<open>f\<close>. \<^verbatim>\<open>currf['filename']\<close> subscripts the value of
  the key; on \<^verbatim>\<open>None\<close> that raises \<^verbatim>\<open>TypeError\<close>.
\<close>

definition stage_key :: "'j env \<Rightarrow> (role \<Rightarrow> local_entry option) \<Rightarrow> string \<Rightarrow> role \<Rightarrow> string list \<Rightarrow> world \<Rightarrow> (error + string list) \<times> world" where
  "stage_key env tf tempdir f symlinks w =
     (case tf f of
        None \<Rightarrow> (Inl TypeError, w)
      | Some currf \<Rightarrow>
          (if filename currf = ''_dataset_metadata.json'' then
             (case read_file w (path currf) of
                Inl e \<Rightarrow> (Inl e, w)
              | Inr content \<Rightarrow>
                  (case json_load env content of
                     None \<Rightarrow> (Inl (ValueError ''No JSON object could be decoded''), w)
                   | Some jsondata \<Rightarrow>
                       (let md = get_terraref_metadata env jsondata;
                            w1 = write_file (path currf) (json_dump env md) w
                        in case tf Raw of
                             None \<Rightarrow> (Inl TypeError, w1)
                           | Some raw \<Rightarrow>
                               symlink_and_record (path currf)
                                 (path_join tempdir
                                    (remove_all ''_raw'' (filename raw) @ ''_metadata.json''))
                                 symlinks w1)))
           else symlink_and_record (path currf) (path_join tempdir (filename currf)) symlinks w))"

fun stage_keys :: "'j env \<Rightarrow> (role \<Rightarrow> local_entry option) \<Rightarrow> string \<Rightarrow> role list \<Rightarrow> string list \<Rightarrow> world \<Rightarrow> (error + string list) \<times> world" where
  "stage_keys env tf tempdir [] symlinks w = (Inr symlinks, w)"
| "stage_keys env tf tempdir (f # fs) symlinks w =
     (case stage_key env tf tempdir f symlinks w of
        (Inl e, w') \<Rightarrow> (Inl e, w')
      | (Inr symlinks', w') \<Rightarrow> stage_keys env tf tempdir fs symlinks' w')"

text \<open>The result is the pair of \<^verbatim>\<open>tempdir\<close> and \<^verbatim>\<open>symlinks\<close> as they stand after line 143.\<close>

definition create_symlinks :: "'j env \<Rightarrow> scan_state \<Rightarrow> world \<Rightarrow> (error + (string option \<times> string list)) \<times> world" where
  "create_symlinks env s w =
     (if not_bool (path_match s) then
        (let tempdir = mkdtemp env;
             w1 = w\<lparr>fs_dirs := fs_dirs w @ [tempdir]\<rparr>
         in case stage_keys env (target_files s) tempdir (key_order env) [] w1 of
              (Inl e, w') \<Rightarrow> (Inl e, w')
            | (Inr symlinks, w') \<Rightarrow> (Inr (Some tempdir, symlinks), w'))
      else (Inr (None, []), w))"

subsection \<open>Invoking the conversion (lines 146 to 166)\<close>

text \<open>\<^verbatim>\<open>resource['dataset_info']['name'].split(" - ")[1]\<close> raises \<^verbatim>\<open>IndexError\<close> without a second piece.\<close>

definition timestamp_of :: "string \<Rightarrow> error + string" where
  "timestamp_of name =
     (case split name '' - '' of
        a # t # rest \<Rightarrow> Inr t
      | _ \<Rightarrow> Inl IndexError)"

definition sensor_fullname_of :: "string \<Rightarrow> string" where
  "sensor_fullname_of name = (if contains name ''SWIR'' then ''swir_netcdf'' else ''vnir_netcdf'')"

definition soil_mask_of :: "'j env \<Rightarrow> string \<Rightarrow> string \<Rightarrow> string option" where
  "soil_mask_of env name timestamp =
     (if contains name ''SWIR'' then None
      else Some (get_sensor_path env timestamp ''vnir_soil_masks'' [''soil_mask'']))"

text \<open>
  The script gets the path of the raw file as the scan recorded it. \<^verbatim>\<open>if soil_mask:\<close> is
  false on \<^verbatim>\<open>None\<close> and on the empty string.
\<close>

definition invoke_workflow :: "'j env \<Rightarrow> scan_state \<Rightarrow> string option \<Rightarrow> string \<Rightarrow> world \<Rightarrow> (error + int) \<times> world" where
  "invoke_workflow env s soil_mask outFilePath w =
     (let w1 = emit (LogInfo ''invoking hyperspectral_workflow.sh to create'') w
      in case target_files s Raw of
           None \<Rightarrow> (Inl TypeError, w1)
         | Some raw \<Rightarrow>
             (let argv =
                    (if \<not> not_str soil_mask
                     then [''bash'', ''hyperspectral_workflow.sh'', ''-d'', ''1'', ''-h'',
                           ''-m'', the soil_mask, ''--new_clb_mth'',
                           ''-i'', path raw, ''-o'', outFilePath]
                     else [''bash'', ''hyperspectral_workflow.sh'', ''-d'', ''1'', ''-h'',
                           ''--new_clb_mth'',
                           ''-i'', path raw, ''-o'', outFilePath]);
                  (returncode, files') = workflow env argv (fs_files w1)
              in (Inr returncode, emit (Workflow argv) (w1\<lparr>fs_files := files'\<rparr>))))"

subsection \<open>Verifying the output and uploading (lines 168 to 185)\<close>

definition upload_output :: "'j env \<Rightarrow> string \<Rightarrow> string \<Rightarrow> string \<Rightarrow> world \<Rightarrow> world" where
  "upload_output env sensor_fullname timestamp outFilePath w =
     (let target_dsid =
            build_dataset_hierarchy env (get_display_name env sensor_fullname)
              (take 4 timestamp) (take 2 (drop 5 timestamp)) (take 2 (drop 8 timestamp))
              (get_display_name env sensor_fullname @ '' - '' @ timestamp);
          w1 = emit (LogInfo ''uploading'') w
      in emit (Upload target_dsid outFilePath) w1)"

definition verify_output :: "'j env \<Rightarrow> resource \<Rightarrow> string \<Rightarrow> string \<Rightarrow> string \<Rightarrow> int \<Rightarrow> world \<Rightarrow> (error + unit) \<times> world" where
  "verify_output env resource sensor_fullname timestamp outFilePath returncode w0 =
     (let w = emit (LogInfo ''done creating output file'') w0
      in if returncode \<noteq> 0 then (Inl (ValueError ''script encountered an error''), w)
         else if path_exists w outFilePath then
           (if returncode = 0 then
              (let w1 = (if outFilePath \<notin> set (local_paths resource)
                         then upload_output env sensor_fullname timestamp outFilePath w
                         else w)
               in (Inr (), w1\<lparr>created := created w1 + 1,
                                bytes := bytes w1 + getsize w1 outFilePath\<rparr>))
            else (Inr (), w))
         else (Inr (), emit (LogError ''no output file was produced'') w))"

subsection \<open>Sending the index to the trait database (lines 187 to 205)\<close>

definition csv_header :: string where
  "csv_header =
     ''local_datetime,NDVI705,access_level,species,site,'' @
     ''citation_author,citation_year,citation_title,method''"

definition csv_vals :: "string \<Rightarrow> string \<Rightarrow> string \<Rightarrow> string" where
  "csv_vals timestamp NDVI705 plot_no =
     timestamp @ '','' @ NDVI705 @ '',2,Sorghum bicolor,'' @ plot_no @ '','' @
     [CHR 0x22] @ ''Butowsky, Henry'' @ [CHR 0x22] @ '',2016,'' @
     ''Maricopa Field Station Data and Metadata,Hyperspectral NDVI705 Indices''"

definition send_indices :: "'j env \<Rightarrow> string \<Rightarrow> string \<Rightarrow> world \<Rightarrow> (error + unit) \<times> world" where
  "send_indices env sensor_fullname timestamp w =
     (let ind_file = get_sensor_path env timestamp sensor_fullname [''_ind'']
      in case read_ndvi env (fs_files w) ind_file of
           Inl e \<Rightarrow> (Inl e, w)
         | Inr NDVI705 \<Rightarrow>
             (let tmp_csv = ''traits.csv'';
                  plot_no = ''Full Field'';
                  w1 = write_file tmp_csv
                         (csv_header @ [CHR 0x0A] @ csv_vals timestamp NDVI705 plot_no) w
              in (Inr (), emit (SubmitTraits tmp_csv) w1)))"

subsection \<open>Removing the links and the directory (lines 207 to 211)\<close>

fun remove_symlinks :: "string list \<Rightarrow> world \<Rightarrow> (error + unit) \<times> world" where
  "remove_symlinks [] w = (Inr (), w)"
| "remove_symlinks (symlink # rest) w =
     (case os_remove symlink w of
        Inl e \<Rightarrow> (Inl e, w)
      | Inr w' \<Rightarrow> remove_symlinks rest w')"

definition cleanup :: "string option \<Rightarrow> string list \<Rightarrow> world \<Rightarrow> (error + unit) \<times> world" where
  "cleanup tempdir symlinks w =
     (case remove_symlinks symlinks w of
        (Inl e, w') \<Rightarrow> (Inl e, w')
      | (Inr u, w') \<Rightarrow>
          (if \<not> not_str tempdir then
             (case os_rmdir (the tempdir) w' of
                Inl e \<Rightarrow> (Inl e, w')
              | Inr w'' \<Rightarrow> (Inr (), w''))
           else (Inr (), w')))"

subsection \<open>The whole of \<^verbatim>\<open>process_message\<close> (lines 76 to 213)\<close>

text \<open>
  An exception ends the run where it is raised: the result is the error and the world as
  it is at that point. The function has no \<^verbatim>\<open>try\<close> statement.
\<close>

definition process_message :: "'j env \<Rightarrow> resource \<Rightarrow> world \<Rightarrow> (error + unit) \<times> world" where
  "process_message env resource w0 =
     (let w1 = emit StartMessage w0;
          s0 = scan_local_paths (key_order env) (local_paths resource)
      in case identify_metadata resource s0 w1 of
           (Inl e, w2) \<Rightarrow> (Inl e, w2)
         | (Inr s, w2) \<Rightarrow>
     (case create_symlinks env s w2 of
           (Inl e, w3) \<Rightarrow> (Inl e, w3)
         | (Inr (tempdir, symlinks), w3) \<Rightarrow>
     (case timestamp_of (dataset_name resource) of
           Inl e \<Rightarrow> (Inl e, w3)
         | Inr timestamp \<Rightarrow>
     (let sensor_fullname = sensor_fullname_of (dataset_name resource);
          soil_mask = soil_mask_of env (dataset_name resource) timestamp;
          outFilePath = create_sensor_path env timestamp sensor_fullname
      in case invoke_workflow env s soil_mask outFilePath w3 of
           (Inl e, w4) \<Rightarrow> (Inl e, w4)
         | (Inr returncode, w4) \<Rightarrow>
     (case verify_output env resource sensor_fullname timestamp outFilePath returncode w4 of
           (Inl e, w5) \<Rightarrow> (Inl e, w5)
         | (Inr u, w5) \<Rightarrow>
     (case send_indices env sensor_fullname timestamp w5 of
           (Inl e, w6) \<Rightarrow> (Inl e, w6)
         | (Inr u, w6) \<Rightarrow>
     (case cleanup tempdir symlinks w6 of
           (Inl e, w7) \<Rightarrow> (Inl e, w7)
         | (Inr u, w7) \<Rightarrow> (Inr (), emit EndMessage w7))))))))"

subsection \<open>Sample captures\<close>

text \<open>
  A capture whose six files lie in one directory, the same capture with the
  container-level metadata file in place of the capture-level one, and collaborators: the
  conversion script exits with \<open>status\<close> and writes \<open>output\<close> to its last argument when
  \<open>output\<close> is given.
\<close>

definition colocated_paths :: "string list" where
  "colocated_paths =
     [''/data/a_raw'', ''/data/a_raw.hdr'', ''/data/a_image.jpg'',
      ''/data/a_frameIndex.txt'', ''/data/a_settings.txt'', ''/data/a_metadata.json'']"

definition container_level_paths :: "string list" where
  "container_level_paths =
     [''/data/a_raw'', ''/data/a_raw.hdr'', ''/data/a_image.jpg'',
      ''/data/a_frameIndex.txt'', ''/data/a_settings.txt'', ''/data/_dataset_metadata.json'']"

definition sample_resource :: "string list \<Rightarrow> resource" where
  "sample_resource paths =
     \<lparr>res_id = ''5a1b'', dataset_name = ''VNIR - 2017-04-15__11-03-21-123'',
      local_paths = paths\<rparr>"

definition sample_env :: "int \<Rightarrow> string option \<Rightarrow> string env" where
  "sample_env status output =
     \<lparr>key_order = source_keys,
      mkdtemp = ''/tmp/tmpA1'',
      json_load = Some,
      json_dump = (\<lambda>j. j),
      get_terraref_metadata = (\<lambda>j. ''clean:'' @ j),
      get_sensor_path = (\<lambda>timestamp sensor opts. ''/out/'' @ sensor @ concat opts @ ''.nc''),
      create_sensor_path = (\<lambda>timestamp sensor. ''/out/'' @ sensor @ ''.nc''),
      get_display_name = (\<lambda>sensor. sensor),
      build_dataset_hierarchy = (\<lambda>name year month day leaf. ''ds1''),
      workflow = (\<lambda>argv files.
         (status, case output of None \<Rightarrow> files | Some content \<Rightarrow> files(last argv \<mapsto> content))),
      read_ndvi = (\<lambda>files ind_file. Inr ''0.42'')\<rparr>"

definition sample_world :: world where
  "sample_world =
     \<lparr>fs_files = [''/data/_dataset_metadata.json'' \<mapsto> ''{}''],
      fs_links = [], fs_dirs = [], events = [], created = 0, bytes = 0\<rparr>"

definition staged_links :: "string list" where
  "staged_links =
     [''/tmp/tmpA1/a_raw'', ''/tmp/tmpA1/a_raw.hdr'', ''/tmp/tmpA1/a_image.jpg'',
      ''/tmp/tmpA1/a_frameIndex.txt'', ''/tmp/tmpA1/a_settings.txt'',
      ''/tmp/tmpA1/a_metadata.json'']"

text \<open>The capture without its instrument settings file.\<close>

definition incomplete_paths :: "string list" where
  "incomplete_paths =
     [''/data/a_raw'', ''/data/a_raw.hdr'', ''/data/a_image.jpg'',
      ''/data/a_frameIndex.txt'', ''/data/a_metadata.json'']"

section \<open>Properties of \<^verbatim>\<open>has_all_files\<close>\<close>

lemma foldl_found:
  "foldl (\<lambda>a k. if P k then False else a) b ks = (b \<and> list_all (\<lambda>k. \<not> P k) ks)"
  by (induction ks arbitrary: b) auto

lemma gaf_item_found:
  "(foldl (gaf_ext it) tf ks r = None) =
     (tf r = None \<and> \<not> (r \<in> set ks \<and> endswith (item_filename it) (ext r)))"
proof (induction ks arbitrary: tf)
  case Nil
  show ?case by simp
next
  case (Cons k ks)
  show ?case
    by (simp only: foldl_Cons Cons.IH) (auto simp: gaf_ext_def)
qed

lemma get_all_files_found:
  "(foldl (gaf_item ks) tf fl r = None) =
     (tf r = None \<and> \<not> (r \<in> set ks \<and> list_ex (\<lambda>it. endswith (item_filename it) (ext r)) fl))"
proof (induction fl arbitrary: tf)
  case Nil
  show ?case by simp
next
  case (Cons a fl)
  show ?case
    by (simp only: foldl_Cons Cons.IH) (auto simp: gaf_item_def gaf_item_found)
qed


text \<open>
  C7. \<^verbatim>\<open>has_all_files\<close> is a total function to a Boolean (nothing in it can raise on a
  resource whose file items carry an id and a file name). Whatever the order of the keys, it
  returns \<open>True\<close> exactly when the resource has a \<^verbatim>\<open>files\<close> listing and each of the five
  suffixes \<^verbatim>\<open>raw\<close>, \<^verbatim>\<open>raw.hdr\<close>, \<^verbatim>\<open>image.jpg\<close>, \<^verbatim>\<open>frameIndex.txt\<close>, \<^verbatim>\<open>settings.txt\<close> ends the
  name of some listed file; so it is \<open>False\<close> when any one of the five is missing and when
  the listing itself is absent.
\<close>

theorem has_all_files_iff:
  "set ks = {Raw, RawHdr, ImageJpg, FrameIndex, Settings} \<Longrightarrow>
   has_all_files ks files =
     (case files of
        None \<Rightarrow> False
      | Some fl \<Rightarrow> list_all (\<lambda>r. list_ex (\<lambda>it. endswith (item_filename it) (ext r)) fl) source_keys5)"
proof (cases files)
  case None
  assume ks: "set ks = {Raw, RawHdr, ImageJpg, FrameIndex, Settings}"
  then obtain k ks' where "ks = k # ks'" by (cases ks) auto
  with None show ?thesis
    by (simp add: has_all_files_def get_all_files_def foldl_found)
next
  case (Some fl)
  assume ks: "set ks = {Raw, RawHdr, ImageJpg, FrameIndex, Settings}"
  have "has_all_files ks files =
          list_all (\<lambda>r. list_ex (\<lambda>it. endswith (item_filename it) (ext r)) fl) ks"
    using Some
    by (simp add: has_all_files_def get_all_files_def foldl_found get_all_files_found list_all_iff
          del: not_None_eq)
  also have "\<dots> = list_all (\<lambda>r. list_ex (\<lambda>it. endswith (item_filename it) (ext r)) fl) source_keys5"
    using ks by (simp add: list_all_iff source_keys5_def)
  finally show ?thesis using Some by simp
qed

text \<open>A complete listing, a listing without the frame index, and no listing at all.\<close>

theorem has_all_files_iff_witness:
  "has_all_files source_keys5
     (Some [\<lparr>item_id = ''1'', item_filename = ''a_raw''\<rparr>,
            \<lparr>item_id = ''2'', item_filename = ''a_raw.hdr''\<rparr>,
            \<lparr>item_id = ''3'', item_filename = ''a_image.jpg''\<rparr>,
            \<lparr>item_id = ''4'', item_filename = ''a_frameIndex.txt''\<rparr>,
            \<lparr>item_id = ''5'', item_filename = ''a_settings.txt''\<rparr>])
   \<and> \<not> has_all_files source_keys5
     (Some [\<lparr>item_id = ''1'', item_filename = ''a_raw''\<rparr>,
            \<lparr>item_id = ''2'', item_filename = ''a_raw.hdr''\<rparr>,
            \<lparr>item_id = ''3'', item_filename = ''a_image.jpg''\<rparr>,
            \<lparr>item_id = ''5'', item_filename = ''a_settings.txt''\<rparr>])
   \<and> \<not> has_all_files source_keys5 None"
proof -
  have ks: "set source_keys5 = {Raw, RawHdr, ImageJpg, FrameIndex, Settings}"
    by (simp add: source_keys5_def)
  show ?thesis
    unfolding has_all_files_iff [OF ks]
    by (simp add: source_keys5_def endswith_def)
qed

section \<open>Properties of the validator\<close>

lemma assertTrue_ok: "(assertTrue b = Inr ()) = b"
  by (simp add: assertTrue_def)

text \<open>
  C8. The check of the \<^verbatim>\<open>wavelength\<close> dimension passes exactly when the dimension exists
  and its size is one of 272, 273, 275, 939, 955; the check of the length of the
  \<^verbatim>\<open>wavelength\<close> variable passes exactly when the variable exists and its length is one of
  these; the range check passes exactly when the variable has a first sample that is
  strictly greater than 3e-7 and strictly less than 1e-6.
\<close>

theorem wavelength_checks:
  "(testTheWavelengthDimensionsHaveCorrectValues g c = Inr ()) =
     (\<exists>n. map_of (dimensions c) ''wavelength'' = Some n \<and> n \<in> {272, 273, 275, 939, 955})
   \<and> (testWavelengthArrayHasEnoughData g c = Inr ()) =
     (\<exists>w. map_of (variables c) ''wavelength'' = Some w
          \<and> length (vdata w) \<in> {272, 273, 275, 939, 955})
   \<and> (testWavelengthArrayHasCorrectData g c = Inr ()) =
     (\<exists>w w0 ws. map_of (variables c) ''wavelength'' = Some w \<and> vdata w = w0 # ws
          \<and> 3 / 10 ^ 7 < w0 \<and> w0 < 1 / 10 ^ 6)"
proof (intro conjI)
  show "(testTheWavelengthDimensionsHaveCorrectValues g c = Inr ()) =
     (\<exists>n. map_of (dimensions c) ''wavelength'' = Some n \<and> n \<in> {272, 273, 275, 939, 955})"
    by (cases "map_of (dimensions c) ''wavelength''")
       (simp_all add: testTheWavelengthDimensionsHaveCorrectValues_def getitem_def
          assertTrue_ok band_counts_def)
  show "(testWavelengthArrayHasEnoughData g c = Inr ()) =
     (\<exists>w. map_of (variables c) ''wavelength'' = Some w
          \<and> length (vdata w) \<in> {272, 273, 275, 939, 955})"
    by (cases "map_of (variables c) ''wavelength''")
       (simp_all add: testWavelengthArrayHasEnoughData_def getitem_def
          assertTrue_ok band_counts_def)
  show "(testWavelengthArrayHasCorrectData g c = Inr ()) =
     (\<exists>w w0 ws. map_of (variables c) ''wavelength'' = Some w \<and> vdata w = w0 # ws
          \<and> 3 / 10 ^ 7 < w0 \<and> w0 < 1 / 10 ^ 6)"
  proof (cases "map_of (variables c) ''wavelength''")
    case None
    then show ?thesis
      by (simp add: testWavelengthArrayHasCorrectData_def getitem_def)
  next
    case (Some w)
    show ?thesis
    proof (cases "vdata w")
      case Nil
      with Some show ?thesis
        by (simp add: testWavelengthArrayHasCorrectData_def getitem_def first_sample_def)
    next
      case (Cons w0 ws)
      with Some show ?thesis
        by (simp add: testWavelengthArrayHasCorrectData_def getitem_def first_sample_def
              assertTrue_def)
    qed
  qed
qed

text \<open>
  Length 273 with first sample 4e-7 passes the three checks; size 300 fails the cardinality
  check.
\<close>

theorem wavelength_checks_witness:
  "testTheWavelengthDimensionsHaveCorrectValues module_globals (wl_container 273 (4 / 10 ^ 7)) = Inr ()
   \<and> testWavelengthArrayHasEnoughData module_globals (wl_container 273 (4 / 10 ^ 7)) = Inr ()
   \<and> testWavelengthArrayHasCorrectData module_globals (wl_container 273 (4 / 10 ^ 7)) = Inr ()
   \<and> testTheWavelengthDimensionsHaveCorrectValues module_globals (wl_container 300 (4 / 10 ^ 7)) \<noteq> Inr ()"
proof -
  let ?c = "wl_container 273 (4 / 10 ^ 7)"
  let ?d = "wl_container 300 (4 / 10 ^ 7)"
  have r: "replicate 273 x = x # replicate 272 x" for x :: real
    by (simp add: replicate_Suc [symmetric] del: replicate_Suc)
  have 1: "\<exists>n. map_of (dimensions ?c) ''wavelength'' = Some n \<and> n \<in> {272, 273, 275, 939, 955}"
    by (simp add: wl_container_def)
  have 2: "\<exists>w. map_of (variables ?c) ''wavelength'' = Some w
          \<and> length (vdata w) \<in> {272, 273, 275, 939, 955}"
    by (simp add: wl_container_def)
  have "map_of (variables ?c) ''wavelength'' = Some \<lparr>vdata = replicate 273 (4 / 10 ^ 7), vattrs = []\<rparr>
      \<and> vdata \<lparr>vdata = replicate 273 (4 / 10 ^ 7 :: real), vattrs = []\<rparr>
          = (4 / 10 ^ 7) # replicate 272 (4 / 10 ^ 7)
      \<and> 3 / 10 ^ 7 < (4 / 10 ^ 7 :: real) \<and> (4 / 10 ^ 7 :: real) < 1 / 10 ^ 6"
    by (simp add: wl_container_def r)
  then have 3: "\<exists>w w0 ws. map_of (variables ?c) ''wavelength'' = Some w \<and> vdata w = w0 # ws
          \<and> 3 / 10 ^ 7 < w0 \<and> w0 < 1 / 10 ^ 6"
    by blast
  have 4: "\<not> (\<exists>n. map_of (dimensions ?d) ''wavelength'' = Some n \<and> n \<in> {272, 273, 275, 939, 955})"
    by (simp add: wl_container_def)
  note c = wavelength_checks [of module_globals ?c]
  note d = wavelength_checks [of module_globals ?d]
  have a1: "testTheWavelengthDimensionsHaveCorrectValues module_globals ?c = Inr ()"
    by (rule iffD2 [OF c [THEN conjunct1] 1])
  have a2: "testWavelengthArrayHasEnoughData module_globals ?c = Inr ()"
    by (rule iffD2 [OF c [THEN conjunct2, THEN conjunct1] 2])
  have a3: "testWavelengthArrayHasCorrectData module_globals ?c = Inr ()"
    by (rule iffD2 [OF c [THEN conjunct2, THEN conjunct2] 3])
  have a4: "testTheWavelengthDimensionsHaveCorrectValues module_globals ?d \<noteq> Inr ()"
    using 4 iffD1 [OF d [THEN conjunct1]] by (rule contrapos_nn)
  from a1 a2 a3 a4 show ?thesis by (intro conjI)
qed

lemma run_test_bad:
  "(run_test xf r \<noteq> Failure \<and> run_test xf r \<noteq> Error) = (xf \<or> r = Inr ())"
  by (cases r) (auto simp: run_test_def)

lemma run_test_unexpected:
  "(run_test xf r \<noteq> UnexpectedSuccess) = (\<not> xf \<or> r \<noteq> Inr ())"
  by (cases r) (auto simp: run_test_def)

lemma wasSuccessful_Nil: "wasSuccessful u []"
  by (cases u) (simp_all add: wasSuccessful_def)

lemma wasSuccessful_Cons:
  "wasSuccessful u (out # outs) =
     (out \<noteq> Failure \<and> out \<noteq> Error
      \<and> (case u of Unittest27 \<Rightarrow> True | Unittest34 \<Rightarrow> out \<noteq> UnexpectedSuccess)
      \<and> wasSuccessful u outs)"
  by (cases u) (auto simp: wasSuccessful_def)

lemma wasSuccessful_map:
  "wasSuccessful u (map (\<lambda>(xf, body). run_test xf (body g c)) ts) =
     (list_all (\<lambda>(xf, body). body g c = Inr ()) (filter (\<lambda>(xf, body). \<not> xf) ts)
      \<and> (case u of
            Unittest27 \<Rightarrow> True
          | Unittest34 \<Rightarrow>
              list_all (\<lambda>(xf, body). body g c \<noteq> Inr ()) (filter (\<lambda>(xf, body). xf) ts)))"
proof (induction ts)
  case Nil
  show ?case by (cases u) (simp_all add: wasSuccessful_Nil)
next
  case (Cons t ts)
  obtain xf body where t: "t = (xf, body)" by (cases t)
  show ?case
    using Cons.IH run_test_bad [of xf "body g c"] run_test_unexpected [of xf "body g c"]
    by (cases u; cases xf) (auto simp: t wasSuccessful_Cons)
qed

lemma main_globals_path: "main_globals a ''TEST_FILE_DIRECTORY'' = Some (PStr (input_file_path a))"
  by (simp add: main_globals_def)

lemma run_suite_opened:
  "fs (input_file_path a) = Some c \<Longrightarrow>
   wasSuccessful u (run_suite (main_globals a) fs) =
     (unmarked_checks_pass (main_globals a) c
      \<and> (case u of Unittest27 \<Rightarrow> True | Unittest34 \<Rightarrow> marked_checks_raise (main_globals a) c))"
  by (cases u)
     (simp_all add: run_suite_def setUpClass_def main_globals_path wasSuccessful_map
        unmarked_checks_pass_def marked_checks_raise_def)

lemma run_suite_not_opened:
  "fs (input_file_path a) = None \<Longrightarrow> \<not> wasSuccessful u (run_suite (main_globals a) fs)"
  by (simp add: run_suite_def setUpClass_def main_globals_path wasSuccessful_Cons)

text \<open>
  C6, amended. The exit status of the validator is 0 when the input file opens as a
  container on which every check without the expected-failure mark passes and, with
  \<^verbatim>\<open>unittest\<close> of Python 3.4 or later, every check with the mark raises; it is 1 otherwise.
  With \<^verbatim>\<open>unittest\<close> of Python 2.7 the checks that carry the mark do not enter the verdict.
\<close>

theorem exit_status_by_version:
  "main u a fs =
     (if \<exists>c. fs (input_file_path a) = Some c
            \<and> unmarked_checks_pass (main_globals a) c
            \<and> (case u of
                  Unittest27 \<Rightarrow> True
                | Unittest34 \<Rightarrow> marked_checks_raise (main_globals a) c)
      then 0 else 1)"
proof (cases "fs (input_file_path a)")
  case None
  then show ?thesis
    by (simp add: main_def run_suite_not_opened)
next
  case (Some c)
  then show ?thesis
    by (simp add: main_def run_suite_opened)
qed

lemma replicate_273: "replicate 273 x = x # replicate 272 x"
  by (simp add: replicate_Suc [symmetric] del: replicate_Suc)

lemma main_globals_reflectance:
  "main_globals a ''MAXIMUM_PLANT_REFLECTANCE'' = Some (PNum (maximum_plant_reflectance a))"
  by (simp add: main_globals_def)

lemma main_globals_dimensions:
  "main_globals a ''EXPECTED_NUMBER_OF_DIMENSIONS'' = Some (PNum 4)"
  by (simp add: main_globals_def module_globals_def)

lemma main_globals_exposure: "main_globals a ''SATURATED_EXPOSURE'' = None"
  by (simp add: main_globals_def module_globals_def)

lemma full_container_unmarked:
  "unmarked_checks_pass (main_globals (default_args p)) (full_container ds rfl)"
  by (simp add: unmarked_checks_pass_def default_args_def test_cases_def full_container_def
        axis_attrs_def testTheYDimensionsMatchesTimeDimension_def
        testTheWavelengthDimensionsHaveCorrectValues_def testWavelengthArrayHasEnoughData_def
        testWavelengthArrayHasCorrectData_def testHistoryIsCorrectlyRecorded_def
        testFrameTimeHasCorrectCalendarAttr_def testFrameTimeHasCorrectUnitsAttr_def
        testFrameTimeHasCorrectValue_def testXHasEnoughAttributes_def
        testYHasEnoughAttributes_def testSolarZenithAngleInReseaonableRange_def
        getitem_def getattr_def hasattr_def first_sample_def assertTrue_def assertFalse_def
        assertHasAttribute_def potentialAttributes_def band_counts_def any_gt_def any_lt_def
        global_num_def main_globals_reflectance replicate_273)

lemma good_container_marked:
  "\<not> marked_checks_raise (main_globals (default_args p)) good_container"
  by (simp add: marked_checks_raise_def default_args_def test_cases_def good_container_def
        full_container_def testTheNumberOfDimensionsInRootLevelIsCorrect_def
        global_num_def main_globals_dimensions assertTrue_def)

lemma evolved_container_marked:
  "marked_checks_raise (main_globals (default_args p)) evolved_container"
  by (simp add: marked_checks_raise_def default_args_def test_cases_def evolved_container_def
        full_container_def testTheNumberOfDimensionsInRootLevelIsCorrect_def
        testCalibrationGraphIsOverReflected_def testCalibrationGraphIsOverExposured_def
        getitem_def global_num_def main_globals_dimensions main_globals_reflectance
        main_globals_exposure assertTrue_def assertFalse_def any_gt_def)

text \<open>
  With \<^verbatim>\<open>unittest\<close> of Python 2.7 the container with two unexpected successes gives exit
  status 0; with \<^verbatim>\<open>unittest\<close> of Python 3.4 the container on which the marked checks
  raise gives 0; a container without the \<^verbatim>\<open>y\<close> dimension, or a path that does not open,
  gives 1.
\<close>

theorem exit_status_by_version_witness:
  "main Unittest27 (default_args ''out.nc'') [''out.nc'' \<mapsto> good_container] = 0
   \<and> main Unittest34 (default_args ''out.nc'') [''out.nc'' \<mapsto> evolved_container] = 0
   \<and> main Unittest27 (default_args ''out.nc'')
        [''out.nc'' \<mapsto> var_container ''wavelength'' [4 / 10 ^ 7]] = 1
   \<and> main Unittest34 (default_args ''out.nc'') Map.empty = 1"
proof -
  have p: "input_file_path (default_args ''out.nc'') = ''out.nc''"
    by (simp add: default_args_def)
  have 1: "main Unittest27 (default_args ''out.nc'') [''out.nc'' \<mapsto> good_container] = 0"
    unfolding exit_status_by_version
    by (simp add: p good_container_def full_container_unmarked)
  have 2: "main Unittest34 (default_args ''out.nc'') [''out.nc'' \<mapsto> evolved_container] = 0"
    unfolding exit_status_by_version
    using evolved_container_marked [of "''out.nc''"]
    by (simp add: p evolved_container_def full_container_unmarked)
  have 3: "main Unittest27 (default_args ''out.nc'')
        [''out.nc'' \<mapsto> var_container ''wavelength'' [4 / 10 ^ 7]] = 1"
    unfolding exit_status_by_version
    by (simp add: p unmarked_checks_pass_def test_cases_def var_container_def
          testTheYDimensionsMatchesTimeDimension_def getitem_def)
  have 4: "main Unittest34 (default_args ''out.nc'') Map.empty = 1"
    unfolding exit_status_by_version by simp
  from 1 2 3 4 show ?thesis by (intro conjI)
qed

text \<open>
  C6, as stated, fails. On \<open>good_container\<close> every check without the expected-failure mark
  passes, and the run with \<^verbatim>\<open>unittest\<close> of Python 3.4 exits with status 1: the
  dimension-count check and the reflectance check, both marked, succeed unexpectedly.
\<close>

theorem unexpected_success_exit_status:
  "unmarked_checks_pass (main_globals (default_args ''out.nc'')) good_container
   \<and> main Unittest34 (default_args ''out.nc'') [''out.nc'' \<mapsto> good_container] = 1"
proof -
  have p: "input_file_path (default_args ''out.nc'') = ''out.nc''"
    by (simp add: default_args_def)
  have 1: "unmarked_checks_pass (main_globals (default_args ''out.nc'')) good_container"
    by (simp add: good_container_def full_container_unmarked)
  have "\<not> wasSuccessful Unittest34
          (run_suite (main_globals (default_args ''out.nc'')) [''out.nc'' \<mapsto> good_container])"
    using good_container_marked [of "''out.nc''"]
    by (simp add: run_suite_opened [of _ _ good_container] p)
  then have 2: "main Unittest34 (default_args ''out.nc'') [''out.nc'' \<mapsto> good_container] = 1"
    by (simp add: main_def)
  from 1 2 show ?thesis by (intro conjI)
qed

text \<open>
  C4. The solar-zenith-angle check on out-of-range values. With the single value 95 (above
  90) the check passes; with the values 45 and -5 (one below 0) it passes; it fails only
  when a value above 90 and a value below 0 occur together.
\<close>

theorem solar_zenith_check_passes_out_of_range:
  "testSolarZenithAngleInReseaonableRange module_globals (var_container ''solar_zenith_angle'' [95]) = Inr ()
   \<and> testSolarZenithAngleInReseaonableRange module_globals (var_container ''solar_zenith_angle'' [45, - 5]) = Inr ()
   \<and> testSolarZenithAngleInReseaonableRange module_globals (var_container ''solar_zenith_angle'' [95, - 5]) = Inl AssertionError"
  by (simp add: testSolarZenithAngleInReseaonableRange_def var_container_def getitem_def
        any_gt_def any_lt_def global_num_def module_globals_def assertFalse_def)

text \<open>
  C9. The exposure check after the main block has stored the command-line ceiling under
  \<^verbatim>\<open>DEFAULT_SATURATED_EXPOSURE\<close>: the body reads the unbound name \<^verbatim>\<open>SATURATED_EXPOSURE\<close>
  and raises \<^verbatim>\<open>NameError\<close>, whether the values of \<^verbatim>\<open>xps_img\<close> are below the ceiling (0) or
  above it (70000). Under the expected-failure mark every run of the check, on every
  container and with every ceiling, is recorded as an expected failure.
\<close>

theorem exposure_check_reads_unbound_name:
  "testCalibrationGraphIsOverExposured (main_globals a) (var_container ''xps_img'' [0]) = Inl NameError
   \<and> testCalibrationGraphIsOverExposured (main_globals a) (var_container ''xps_img'' [70000]) = Inl NameError
   \<and> run_test True (testCalibrationGraphIsOverExposured (main_globals a) c) = ExpectedFailure"
proof -
  have n: "main_globals a ''SATURATED_EXPOSURE'' = None"
    by (simp add: main_globals_def module_globals_def)
  have "\<exists>e. testCalibrationGraphIsOverExposured (main_globals a) c = Inl e"
    by (cases "map_of (variables c) ''xps_img''")
       (simp_all add: testCalibrationGraphIsOverExposured_def getitem_def global_num_def n)
  then have "run_test True (testCalibrationGraphIsOverExposured (main_globals a) c) = ExpectedFailure"
    by (auto simp: run_test_def)
  then show ?thesis
    by (simp add: testCalibrationGraphIsOverExposured_def var_container_def getitem_def
          global_num_def n)
qed

section \<open>Properties of the extractor\<close>

lemma scan_ext_path_match:
  "path_match s \<noteq> Some True \<Longrightarrow> path_match (scan_ext f s fileExt) \<noteq> Some True"
  by (simp add: scan_ext_def Let_def)

lemma scan_file_path_match:
  "path_match s \<noteq> Some True \<Longrightarrow> path_match (foldl (scan_ext f) s ks) \<noteq> Some True"
  by (induction ks arbitrary: s) (simp_all add: scan_ext_path_match)

lemma scan_paths_path_match:
  "path_match s \<noteq> Some True \<Longrightarrow> path_match (foldl (scan_file ks) s paths) \<noteq> Some True"
  by (induction paths arbitrary: s) (simp_all add: scan_file_def scan_file_path_match)

lemma scan_colocated:
  "path_match (scan_local_paths source_keys colocated_paths) = None"
  by code_simp

lemma stage_colocated:
  "fst (create_symlinks (sample_env 0 None)
          (scan_local_paths source_keys colocated_paths) sample_world) =
     Inr (Some ''/tmp/tmpA1'', staged_links)"
  by code_simp

text \<open>
  C1. \<^verbatim>\<open>path_match\<close> starts as \<^verbatim>\<open>None\<close> and the only assignment to it stores \<^verbatim>\<open>False\<close>:
  for every list of paths and every order of the keys it is never \<^verbatim>\<open>True\<close> after the scan,
  and \<^verbatim>\<open>not path_match\<close> holds, so the branch of line 128 is always taken. On the capture
  whose six files all lie in \<^verbatim>\<open>/data\<close> the flag is \<^verbatim>\<open>None\<close>, and the temporary directory
  with its six links is created.
\<close>

theorem path_match_never_true:
  "path_match (scan_local_paths ks paths) \<noteq> Some True
   \<and> not_bool (path_match (scan_local_paths ks paths))
   \<and> path_match (scan_local_paths source_keys colocated_paths) = None
   \<and> fst (create_symlinks (sample_env 0 None)
          (scan_local_paths source_keys colocated_paths) sample_world) =
       Inr (Some ''/tmp/tmpA1'', staged_links)"
proof -
  have 1: "path_match (scan_local_paths ks paths) \<noteq> Some True"
    unfolding scan_local_paths_def
    by (rule scan_paths_path_match) (simp add: init_scan_def)
  then have 2: "not_bool (path_match (scan_local_paths ks paths))"
    by (cases "path_match (scan_local_paths ks paths)") (simp_all add: not_bool_def)
  from 1 2 scan_colocated stage_colocated show ?thesis by (intro conjI)
qed

text \<open>
  C2. The capture whose six files lie in one directory, with a conversion script that
  exits with status 1: the run ends with the \<^verbatim>\<open>ValueError\<close> of line 171, and the six links
  and the temporary directory are still there. With exit status 0 and an output file the
  run ends normally and lines 207 to 211 have removed the links and the directory.
\<close>

theorem failed_conversion_leaves_staging:
  "fst (process_message (sample_env 1 None) (sample_resource colocated_paths) sample_world) =
     Inl (ValueError ''script encountered an error'')
   \<and> map fst (fs_links (snd (process_message (sample_env 1 None)
          (sample_resource colocated_paths) sample_world))) = staged_links
   \<and> fs_dirs (snd (process_message (sample_env 1 None)
          (sample_resource colocated_paths) sample_world)) = [''/tmp/tmpA1'']
   \<and> fst (process_message (sample_env 0 (Some ''nc'')) (sample_resource colocated_paths) sample_world) =
     Inr ()
   \<and> fs_links (snd (process_message (sample_env 0 (Some ''nc''))
          (sample_resource colocated_paths) sample_world)) = []
   \<and> fs_dirs (snd (process_message (sample_env 0 (Some ''nc''))
          (sample_resource colocated_paths) sample_world)) = []"
  by code_simp

text \<open>
  C3, as stated, fails. The conversion exits with status 0 and writes no output: the run
  logs the error, goes on to submit the traits and ends normally. The conversion exits
  with status 0 and writes an empty output file: the file is uploaded and counted.
\<close>

theorem missing_output_is_not_fatal:
  "fst (process_message (sample_env 0 None) (sample_resource colocated_paths) sample_world) = Inr ()
   \<and> drop 3 (events (snd (process_message (sample_env 0 None)
          (sample_resource colocated_paths) sample_world))) =
       [LogInfo ''done creating output file'', LogError ''no output file was produced'',
        SubmitTraits ''traits.csv'', EndMessage]
   \<and> fst (process_message (sample_env 0 (Some [])) (sample_resource colocated_paths) sample_world) = Inr ()
   \<and> drop 3 (events (snd (process_message (sample_env 0 (Some []))
          (sample_resource colocated_paths) sample_world))) =
       [LogInfo ''done creating output file'', LogInfo ''uploading'',
        Upload ''ds1'' ''/out/vnir_netcdf.nc'', SubmitTraits ''traits.csv'', EndMessage]
   \<and> created (snd (process_message (sample_env 0 (Some []))
          (sample_resource colocated_paths) sample_world)) = 1"
  by code_simp

text \<open>
  C5. The capture with five files and the container-level metadata file
  \<^verbatim>\<open>/data/_dataset_metadata.json\<close> only: the run ends at line 121 with \<^verbatim>\<open>AttributeError\<close>, after
  the log line of line 119. The container-level file still has its content (the
  transformed content would be \<^verbatim>\<open>clean:{}\<close>), and the scan has left the
  \<^verbatim>\<open>_metadata.json\<close> key of \<^verbatim>\<open>target_files\<close> at \<^verbatim>\<open>None\<close>.
\<close>

theorem container_level_only_raises:
  "fst (process_message (sample_env 0 (Some ''nc'')) (sample_resource container_level_paths)
          sample_world) = Inl AttributeError
   \<and> events (snd (process_message (sample_env 0 (Some ''nc''))
          (sample_resource container_level_paths) sample_world)) =
       [StartMessage, LogInfo ''checking for local metadata file alongside other files'']
   \<and> fs_files (snd (process_message (sample_env 0 (Some ''nc''))
          (sample_resource container_level_paths) sample_world)) ''/data/_dataset_metadata.json'' =
       Some ''{}''
   \<and> target_files (scan_local_paths source_keys container_level_paths) Metadata = None"
  by code_simp

text \<open>
  C3, amended. After a conversion with exit status 0 the verification (lines 168 to 185)
  raises nothing and tests only that the output path exists, not its size. When the path
  is missing, the error \<^verbatim>\<open>no output file was produced\<close> is logged and nothing else happens:
  no upload, no count. When the path exists, the file is counted (\<^verbatim>\<open>created\<close> plus one,
  \<^verbatim>\<open>bytes\<close> plus its size) and it is uploaded unless it is one of the local paths of the
  resource.
\<close>

theorem verify_output_status0:
  "fst (verify_output env r sensor_fullname timestamp out 0 w) = Inr ()
   \<and> (\<not> path_exists w out \<longrightarrow>
        snd (verify_output env r sensor_fullname timestamp out 0 w) =
          emit (LogError ''no output file was produced'')
            (emit (LogInfo ''done creating output file'') w))
   \<and> (path_exists w out \<and> out \<in> set (local_paths r) \<longrightarrow>
        snd (verify_output env r sensor_fullname timestamp out 0 w) =
          (emit (LogInfo ''done creating output file'') w)
            \<lparr>created := created w + 1, bytes := bytes w + getsize w out\<rparr>)
   \<and> (path_exists w out \<and> out \<notin> set (local_paths r) \<longrightarrow>
        snd (verify_output env r sensor_fullname timestamp out 0 w) =
          (upload_output env sensor_fullname timestamp out
             (emit (LogInfo ''done creating output file'') w))
            \<lparr>created := created w + 1, bytes := bytes w + getsize w out\<rparr>)"
  by (simp add: verify_output_def Let_def path_exists_def emit_def upload_output_def getsize_def)

text \<open>
  A world without the output file, and the same world with an empty output file.
\<close>

theorem verify_output_status0_witness:
  "\<not> path_exists sample_world ''/out/vnir_netcdf.nc''
   \<and> fst (verify_output (sample_env 0 None) (sample_resource colocated_paths)
          ''vnir_netcdf'' ''2017'' ''/out/vnir_netcdf.nc'' 0 sample_world) = Inr ()
   \<and> events (snd (verify_output (sample_env 0 None) (sample_resource colocated_paths)
          ''vnir_netcdf'' ''2017'' ''/out/vnir_netcdf.nc'' 0 sample_world)) =
       [LogInfo ''done creating output file'', LogError ''no output file was produced'']
   \<and> path_exists (write_file ''/out/vnir_netcdf.nc'' [] sample_world) ''/out/vnir_netcdf.nc''
   \<and> ''/out/vnir_netcdf.nc'' \<notin> set (local_paths (sample_resource colocated_paths))
   \<and> events (snd (verify_output (sample_env 0 None) (sample_resource colocated_paths)
          ''vnir_netcdf'' ''2017'' ''/out/vnir_netcdf.nc'' 0
          (write_file ''/out/vnir_netcdf.nc'' [] sample_world))) =
       [LogInfo ''done creating output file'', LogInfo ''uploading'',
        Upload ''ds1'' ''/out/vnir_netcdf.nc'']
   \<and> created (snd (verify_output (sample_env 0 None) (sample_resource colocated_paths)
          ''vnir_netcdf'' ''2017'' ''/out/vnir_netcdf.nc'' 0
          (write_file ''/out/vnir_netcdf.nc'' [] sample_world))) = 1"
proof -
  let ?out = "''/out/vnir_netcdf.nc''"
  let ?w = "write_file ?out [] sample_world"
  have a: "\<not> path_exists sample_world ?out"
    by (simp add: path_exists_def sample_world_def)
  have b: "path_exists ?w ?out"
    by (simp add: path_exists_def write_file_def)
  have c: "?out \<notin> set (local_paths (sample_resource colocated_paths))"
    by (simp add: sample_resource_def colocated_paths_def)
  note t1 = verify_output_status0 [of "sample_env 0 None" "sample_resource colocated_paths"
      "''vnir_netcdf''" "''2017''" ?out sample_world]
  note t2 = verify_output_status0 [of "sample_env 0 None" "sample_resource colocated_paths"
      "''vnir_netcdf''" "''2017''" ?out ?w]
  from t1 a have e1: "snd (verify_output (sample_env 0 None) (sample_resource colocated_paths)
          ''vnir_netcdf'' ''2017'' ?out 0 sample_world) =
          emit (LogError ''no output file was produced'')
            (emit (LogInfo ''done creating output file'') sample_world)"
    by blast
  from t2 b c have e2: "snd (verify_output (sample_env 0 None) (sample_resource colocated_paths)
          ''vnir_netcdf'' ''2017'' ?out 0 ?w) =
          (upload_output (sample_env 0 None) ''vnir_netcdf'' ''2017'' ?out
             (emit (LogInfo ''done creating output file'') ?w))
            \<lparr>created := created ?w + 1, bytes := bytes ?w + getsize ?w ?out\<rparr>"
    by blast
  have f1: "fst (verify_output (sample_env 0 None) (sample_resource colocated_paths)
          ''vnir_netcdf'' ''2017'' ?out 0 sample_world) = Inr ()"
    using t1 by blast
  have g1: "events (snd (verify_output (sample_env 0 None) (sample_resource colocated_paths)
          ''vnir_netcdf'' ''2017'' ?out 0 sample_world)) =
       [LogInfo ''done creating output file'', LogError ''no output file was produced'']"
    unfolding e1 by (simp add: emit_def sample_world_def)
  have g2: "events (snd (verify_output (sample_env 0 None) (sample_resource colocated_paths)
          ''vnir_netcdf'' ''2017'' ?out 0 ?w)) =
       [LogInfo ''done creating output file'', LogInfo ''uploading'',
        Upload ''ds1'' ''/out/vnir_netcdf.nc'']"
    unfolding e2
    by (simp add: emit_def upload_output_def sample_world_def write_file_def sample_env_def)
  have g3: "created (snd (verify_output (sample_env 0 None) (sample_resource colocated_paths)
          ''vnir_netcdf'' ''2017'' ?out 0 ?w)) = 1"
    unfolding e2 by (simp add: sample_world_def write_file_def)
  from a f1 g1 b c g2 g3 show ?thesis by (intro conjI)
qed

lemma stage_key_unresolved:
  "tf f = None \<Longrightarrow> stage_key env tf tempdir f symlinks w = (Inl TypeError, w)"
  by (simp add: stage_key_def)

lemma stage_keys_unresolved:
  "f \<in> set ks \<Longrightarrow> tf f = None \<Longrightarrow>
   \<exists>e w'. stage_keys env tf tempdir ks symlinks w = (Inl e, w')"
proof (induction ks arbitrary: symlinks w)
  case Nil
  then show ?case by simp
next
  case (Cons k ks)
  obtain r w1 where k: "stage_key env tf tempdir k symlinks w = (r, w1)"
    by (cases "stage_key env tf tempdir k symlinks w")
  show ?case
  proof (cases r)
    case (Inl e)
    with k show ?thesis by simp
  next
    case (Inr symlinks')
    with k Cons.prems have "k \<noteq> f"
      by (auto simp: stage_key_unresolved)
    with Cons.prems have "f \<in> set ks" by simp
    from Cons.IH [of symlinks' w1] this Cons.prems(2) k Inr show ?thesis by simp
  qed
qed

text \<open>
  C10. When the branch of line 128 is taken and some key of \<^verbatim>\<open>target_files\<close> is still
  \<^verbatim>\<open>None\<close>, the loop body for that key raises \<^verbatim>\<open>TypeError\<close> at \<^verbatim>\<open>currf['filename']\<close> and
  changes nothing, and the whole step ends with an exception: it never skips the key and
  never returns the list of links.
\<close>

theorem staging_needs_every_role:
  assumes "not_bool (path_match s)" and "f \<in> set (key_order env)" and "target_files s f = None"
  shows "stage_key env (target_files s) tempdir f symlinks w = (Inl TypeError, w)
         \<and> (\<exists>e w'. create_symlinks env s w = (Inl e, w'))"
proof
  from assms(3) show "stage_key env (target_files s) tempdir f symlinks w = (Inl TypeError, w)"
    by (rule stage_key_unresolved)
next
  from stage_keys_unresolved [of f "key_order env" "target_files s" env "mkdtemp env" "[]"
      "w\<lparr>fs_dirs := fs_dirs w @ [mkdtemp env]\<rparr>"] assms(2) assms(3)
  obtain e w' where
    "stage_keys env (target_files s) (mkdtemp env) (key_order env) []
       (w\<lparr>fs_dirs := fs_dirs w @ [mkdtemp env]\<rparr>) = (Inl e, w')"
    by blast
  with assms(1) show "\<exists>e w'. create_symlinks env s w = (Inl e, w')"
    by (simp add: create_symlinks_def Let_def)
qed

text \<open>
  The capture without its instrument settings file.
\<close>

theorem staging_needs_every_role_witness:
  "not_bool (path_match (scan_local_paths source_keys incomplete_paths))
   \<and> Settings \<in> set (key_order (sample_env 0 None))
   \<and> target_files (scan_local_paths source_keys incomplete_paths) Settings = None
   \<and> stage_key (sample_env 0 None) (target_files (scan_local_paths source_keys incomplete_paths))
        ''/tmp/tmpA1'' Settings [] sample_world = (Inl TypeError, sample_world)
   \<and> (\<exists>e w'. create_symlinks (sample_env 0 None)
        (scan_local_paths source_keys incomplete_paths) sample_world = (Inl e, w'))"
proof -
  have a: "not_bool (path_match (scan_local_paths source_keys incomplete_paths))"
    by code_simp
  have b: "Settings \<in> set (key_order (sample_env 0 None))"
    by (simp add: sample_env_def source_keys_def)
  have c: "target_files (scan_local_paths source_keys incomplete_paths) Settings = None"
    by code_simp
  from a b c staging_needs_every_role [OF a b c, of "''/tmp/tmpA1''" "[]" sample_world]
  show ?thesis by (intro conjI) blast+
qed

end
